theory Spec2Isabelle
  imports Complex_Main "HOL-Library.Sublist" "HOL-Library.Char_ord" "HOL-Library.List_Lexorder"
begin

section \<open>The weather tools (src/mastra/tools/weather-tool.ts)\<close>

text \<open>
  A JavaScript \<open>number\<close> that reaches the tools is a finite number parsed from the
  provider's JSON; it is modelled as a \<open>real\<close>. The tools only compare such numbers
  with small integer constants and add or subtract 5 from a catalog bound, which is exact.
  A weather code is an integer and is modelled as an \<open>int\<close>. A field that may be
  \<open>undefined\<close> is an \<open>option\<close>. Each tool awaits the provider and then computes its
  result from the payload; the second part is a function of its own here, named after the
  result it builds, and the tool composes it with the fetch.
\<close>

subsection \<open>Provider payloads\<close>

record GeocodingResult =
  latitude :: real
  longitude :: real
  name :: string
  geo_country :: string
  admin1 :: "string option"

record GeocodingResponse =
  results :: "GeocodingResult list option"

record CurrentWeather =
  time :: string
  temperature_2m :: real
  apparent_temperature :: real
  relative_humidity_2m :: real
  wind_speed_10m :: real
  wind_gusts_10m :: real
  weather_code :: int
  cur_precipitation :: real
  uv_index :: "real option"

record CurrentWeatherResponse =
  current :: CurrentWeather

record DailyForecast =
  daily_time :: "string list"
  temperature_2m_max :: "real list"
  temperature_2m_min :: "real list"
  daily_weather_code :: "int list"
  precipitation_probability_max :: "real list"
  wind_speed_10m_max :: "real list"
  uv_index_max :: "real list"

record ForecastResponse =
  daily :: DailyForecast

text \<open>
  The two HTTP endpoints are outside the repository. A call either fails (the \<open>fetch\<close>
  or the JSON parse throws) or delivers a payload of the declared shape. \<open>LocationNotFound\<close>
  is the \<open>Error\<close> thrown by \<open>geocodeLocation\<close>. \<open>numberToString\<close> is the
  number formatting of a template literal.
\<close>

datatype error = LocationNotFound string | FetchFailed

record env =
  geocodingApi :: "string \<Rightarrow> error + GeocodingResponse"
  currentApi :: "real \<Rightarrow> real \<Rightarrow> error + CurrentWeatherResponse"
  forecastApi :: "real \<Rightarrow> real \<Rightarrow> real \<Rightarrow> error + ForecastResponse"
  numberToString :: "real \<Rightarrow> string"

subsection \<open>Tool results\<close>

record WeatherRecord =
  temperature :: real
  feelsLike :: real
  humidity :: real
  windSpeed :: real
  windGust :: real
  precipitation :: real
  uvIndex :: "real option"
  conditions :: string
  location :: string
  country :: string

subsection \<open>getWeatherCondition\<close>

text \<open>The table of the object literal \<open>conditions\<close>, in source order.\<close>

definition conditionTable :: "(int \<times> string) list" where
  "conditionTable =
    [(0, ''Clear sky''),
     (1, ''Mainly clear''),
     (2, ''Partly cloudy''),
     (3, ''Overcast''),
     (45, ''Foggy''),
     (48, ''Depositing rime fog''),
     (51, ''Light drizzle''),
     (53, ''Moderate drizzle''),
     (55, ''Dense drizzle''),
     (56, ''Light freezing drizzle''),
     (57, ''Dense freezing drizzle''),
     (61, ''Slight rain''),
     (63, ''Moderate rain''),
     (65, ''Heavy rain''),
     (66, ''Light freezing rain''),
     (67, ''Heavy freezing rain''),
     (71, ''Slight snow fall''),
     (73, ''Moderate snow fall''),
     (75, ''Heavy snow fall''),
     (77, ''Snow grains''),
     (80, ''Slight rain showers''),
     (81, ''Moderate rain showers''),
     (82, ''Violent rain showers''),
     (85, ''Slight snow showers''),
     (86, ''Heavy snow showers''),
     (95, ''Thunderstorm''),
     (96, ''Thunderstorm with slight hail''),
     (99, ''Thunderstorm with heavy hail'')]"

text \<open>
  \<open>conditions[code] || "Unknown"\<close>: a missing key reads \<open>undefined\<close>, and \<open>||\<close>
  replaces \<open>undefined\<close> and the empty string by its right operand.
\<close>

definition getWeatherCondition :: "int \<Rightarrow> string" where
  "getWeatherCondition code =
    (case map_of conditionTable code of
       None \<Rightarrow> ''Unknown''
     | Some label \<Rightarrow> if label = [] then ''Unknown'' else label)"

subsection \<open>geocodeLocation and getCurrentWeather\<close>

definition geocodeLocation :: "env \<Rightarrow> string \<Rightarrow> error + GeocodingResult" where
  "geocodeLocation e loc =
    (case geocodingApi e loc of
       Inl err \<Rightarrow> Inl err
     | Inr geocodingData \<Rightarrow>
        (case results geocodingData of
           None \<Rightarrow> Inl (LocationNotFound loc)
         | Some [] \<Rightarrow> Inl (LocationNotFound loc)
         | Some (r # _) \<Rightarrow> Inr r))"

definition weatherRecordOf :: "GeocodingResult \<Rightarrow> CurrentWeatherResponse \<Rightarrow> WeatherRecord" where
  "weatherRecordOf g data =
    \<lparr> temperature = temperature_2m (current data),
      feelsLike = apparent_temperature (current data),
      humidity = relative_humidity_2m (current data),
      windSpeed = wind_speed_10m (current data),
      windGust = wind_gusts_10m (current data),
      precipitation = cur_precipitation (current data),
      uvIndex = uv_index (current data),
      conditions = getWeatherCondition (weather_code (current data)),
      location = name g,
      country = geo_country g \<rparr>"

definition getCurrentWeather :: "env \<Rightarrow> string \<Rightarrow> error + WeatherRecord" where
  "getCurrentWeather e loc =
    (case geocodeLocation e loc of
       Inl err \<Rightarrow> Inl err
     | Inr g \<Rightarrow>
        (case currentApi e (latitude g) (longitude g) of
           Inl err \<Rightarrow> Inl err
         | Inr data \<Rightarrow> Inr (weatherRecordOf g data)))"

subsection \<open>getWeatherForecast\<close>

record ForecastDay =
  date :: string
  high :: "real option"
  low :: "real option"
  fd_conditions :: string
  precipitationChance :: "real option"
  fd_windSpeed :: "real option"
  fd_uvIndex :: "real option"

record ForecastResult =
  fc_location :: string
  fc_country :: string
  forecast :: "ForecastDay list"

text \<open>Reading a JavaScript array at an index: past the end the value is \<open>undefined\<close>.\<close>

definition arrayGet :: "'a list \<Rightarrow> nat \<Rightarrow> 'a option" where
  "arrayGet xs i = (if i < length xs then Some (xs ! i) else None)"

text \<open>
  The callback of \<open>data.daily.time.map((date, index) => ...)\<close>. With an \<open>undefined\<close>
  code, \<open>conditions[undefined]\<close> is missing and the label is \<open>Unknown\<close>.
\<close>

definition forecastDayOf :: "DailyForecast \<Rightarrow> string \<Rightarrow> nat \<Rightarrow> ForecastDay" where
  "forecastDayOf d dt index =
    \<lparr> date = dt,
      high = arrayGet (temperature_2m_max d) index,
      low = arrayGet (temperature_2m_min d) index,
      fd_conditions =
        (case arrayGet (daily_weather_code d) index of
           None \<Rightarrow> ''Unknown''
         | Some code \<Rightarrow> getWeatherCondition code),
      precipitationChance = arrayGet (precipitation_probability_max d) index,
      fd_windSpeed = arrayGet (wind_speed_10m_max d) index,
      fd_uvIndex = arrayGet (uv_index_max d) index \<rparr>"

definition forecastResultOf :: "GeocodingResult \<Rightarrow> ForecastResponse \<Rightarrow> ForecastResult" where
  "forecastResultOf g data =
    \<lparr> fc_location = name g,
      fc_country = geo_country g,
      forecast =
        map (\<lambda>(dt, index). forecastDayOf (daily data) dt index)
          (zip (daily_time (daily data)) [0 ..< length (daily_time (daily data))]) \<rparr>"

text \<open>The parameter \<open>days\<close> defaults to 3 and goes into the request as \<open>forecast_days\<close>.\<close>

definition getWeatherForecast :: "env \<Rightarrow> string \<Rightarrow> real option \<Rightarrow> error + ForecastResult" where
  "getWeatherForecast e loc daysArg =
    (let days = (case daysArg of None \<Rightarrow> 3 | Some d \<Rightarrow> d) in
     case geocodeLocation e loc of
       Inl err \<Rightarrow> Inl err
     | Inr g \<Rightarrow>
        (case forecastApi e (latitude g) (longitude g) days of
           Inl err \<Rightarrow> Inl err
         | Inr data \<Rightarrow> Inr (forecastResultOf g data)))"

subsection \<open>getActivityRecommendations\<close>

datatype suitability = Excellent | Good | Fair | Poor

record Activity =
  activity :: string
  tempRange :: "real list"
  act_conditions :: "string list"

record ActivityRecommendation =
  rec_activity :: string
  suitability :: suitability
  reason :: string
  indoorAlternative :: "string option"

record ActivityResult =
  ar_location :: string
  currentConditions :: string
  ar_temperature :: real
  recommendations :: "ActivityRecommendation list"

definition allActivities :: "Activity list" where
  "allActivities =
    [\<lparr> activity = ''Hiking'', tempRange = [10, 30],
       act_conditions = [''Clear sky'', ''Mainly clear'', ''Partly cloudy''] \<rparr>,
     \<lparr> activity = ''Beach'', tempRange = [20, 35],
       act_conditions = [''Clear sky'', ''Mainly clear''] \<rparr>,
     \<lparr> activity = ''Cycling'', tempRange = [5, 30],
       act_conditions = [''Clear sky'', ''Mainly clear'', ''Partly cloudy''] \<rparr>,
     \<lparr> activity = ''Picnic'', tempRange = [15, 28],
       act_conditions = [''Clear sky'', ''Mainly clear'', ''Partly cloudy''] \<rparr>,
     \<lparr> activity = ''Museum'', tempRange = [- 10, 40], act_conditions = [''All''] \<rparr>,
     \<lparr> activity = ''Shopping'', tempRange = [- 10, 40], act_conditions = [''All''] \<rparr>,
     \<lparr> activity = ''Restaurant'', tempRange = [- 10, 40], act_conditions = [''All''] \<rparr>]"

text \<open>\<open>toLowerCase\<close> on the ASCII letters; the labels it is applied to are ASCII.\<close>

definition toLowerCase :: "string \<Rightarrow> string" where
  "toLowerCase s =
    map (\<lambda>c. case map_of (zip ''ABCDEFGHIJKLMNOPQRSTUVWXYZ'' ''abcdefghijklmnopqrstuvwxyz'') c of
                None \<Rightarrow> c | Some l \<Rightarrow> l) s"

text \<open>
  \<open>reasons[activity] || default\<close> and \<open>alternatives[activity]\<close>. Both helpers are
  called with the activity names of the catalog only; the degree sign is the code unit
  \<open>0xB0\<close>.
\<close>

definition getActivityReason :: "env \<Rightarrow> string \<Rightarrow> WeatherRecord \<Rightarrow> string" where
  "getActivityReason e act weather =
    (let reasons =
       [(''Hiking'', ''Perfect temperature of '' @ numberToString e (temperature weather) @ [CHR 0xB0] @
            ''C and '' @ toLowerCase (conditions weather) @ '' for hiking''),
        (''Beach'', ''Warm '' @ numberToString e (temperature weather) @ [CHR 0xB0] @
            ''C and clear skies ideal for beach activities''),
        (''Cycling'', ''Comfortable conditions for cycling with mild temperatures''),
        (''Picnic'', ''Pleasant weather for outdoor dining and relaxation''),
        (''Museum'', ''Great indoor activity regardless of weather conditions''),
        (''Shopping'', ''Comfortable indoor activity suitable for any weather''),
        (''Restaurant'', ''Enjoy dining in climate-controlled comfort'')]
     in case map_of reasons act of
          None \<Rightarrow> ''Suitable activity for current conditions''
        | Some r \<Rightarrow> if r = [] then ''Suitable activity for current conditions'' else r)"

definition getIndoorAlternative :: "string \<Rightarrow> string option" where
  "getIndoorAlternative act =
    map_of
      [(''Hiking'', ''Visit a nature museum or indoor botanical garden''),
       (''Beach'', ''Visit an indoor pool or aquatic center''),
       (''Cycling'', ''Try a stationary bike at a gym''),
       (''Picnic'', ''Have an indoor picnic or visit a food hall'')] act"

text \<open>The two tests of the \<open>filter\<close> callback, under the names of its local constants.\<close>

definition tempSuitable :: "WeatherRecord \<Rightarrow> Activity \<Rightarrow> bool" where
  "tempSuitable weather act \<longleftrightarrow>
    temperature weather \<ge> tempRange act ! 0 \<and> temperature weather \<le> tempRange act ! 1"

definition conditionsSuitable :: "WeatherRecord \<Rightarrow> Activity \<Rightarrow> bool" where
  "conditionsSuitable weather act \<longleftrightarrow>
    ''All'' \<in> set (act_conditions act) \<or> conditions weather \<in> set (act_conditions act)"

text \<open>The \<open>map\<close> callback: the suitability of a survivor, then its recommendation.\<close>

definition suitabilityOf :: "WeatherRecord \<Rightarrow> Activity \<Rightarrow> suitability" where
  "suitabilityOf weather act =
    (if temperature weather \<ge> tempRange act ! 0 + 5 \<and> temperature weather \<le> tempRange act ! 1 - 5
     then Excellent
     else if precipitation weather > 5 then Fair
     else Good)"

definition recommendationOf :: "env \<Rightarrow> WeatherRecord \<Rightarrow> Activity \<Rightarrow> ActivityRecommendation" where
  "recommendationOf e weather act =
    \<lparr> rec_activity = activity act,
      suitability = suitabilityOf weather act,
      reason = getActivityReason e (activity act) weather,
      indoorAlternative = getIndoorAlternative (activity act) \<rparr>"

text \<open>The survivors of the filter, mapped; \<open>slice(0, 5)\<close> is applied on return.\<close>

definition mappedSurvivors :: "env \<Rightarrow> WeatherRecord \<Rightarrow> ActivityRecommendation list" where
  "mappedSurvivors e weather =
    map (recommendationOf e weather)
      (filter (\<lambda>act. tempSuitable weather act \<and> conditionsSuitable weather act) allActivities)"

definition activityResultOf :: "env \<Rightarrow> WeatherRecord \<Rightarrow> string list option \<Rightarrow> ActivityResult" where
  "activityResultOf e weather interests =
    \<lparr> ar_location = location weather,
      currentConditions = conditions weather,
      ar_temperature = temperature weather,
      recommendations = take 5 (mappedSurvivors e weather) \<rparr>"

definition getActivityRecommendations ::
  "env \<Rightarrow> string \<Rightarrow> string list option \<Rightarrow> error + ActivityResult" where
  "getActivityRecommendations e loc interests =
    (case getCurrentWeather e loc of
       Inl err \<Rightarrow> Inl err
     | Inr weather \<Rightarrow> Inr (activityResultOf e weather interests))"

subsection \<open>getWeatherAlerts\<close>

datatype severity = Extreme | Severe | Moderate | Minor

record AlertRecord =
  severity :: severity
  event :: string
  description :: string
  instructions :: string

record AlertResult =
  al_location :: string
  al_country :: string
  alerts :: "AlertRecord list"
  hasAlerts :: bool

definition heavyRain :: AlertRecord where
  "heavyRain =
    \<lparr> severity = Moderate, event = ''Heavy Rain'',
      description = ''Heavy rainfall expected in the area'',
      instructions = ''Avoid low-lying areas and drive carefully'' \<rparr>"

definition highWinds :: AlertRecord where
  "highWinds =
    \<lparr> severity = Severe, event = ''High Winds'',
      description = ''Strong winds expected'',
      instructions = ''Secure outdoor objects and avoid wooded areas'' \<rparr>"

text \<open>The array \<open>alerts\<close> starts empty; each \<open>push\<close> appends.\<close>

definition alertResultOf :: "WeatherRecord \<Rightarrow> AlertResult" where
  "alertResultOf weather =
    (let alerts0 = [];
         alerts1 = (if precipitation weather > 20 then alerts0 @ [heavyRain] else alerts0);
         alerts2 = (if windSpeed weather > 30 then alerts1 @ [highWinds] else alerts1)
     in \<lparr> al_location = location weather,
          al_country = country weather,
          alerts = alerts2,
          hasAlerts = (length alerts2 > 0) \<rparr>)"

definition getWeatherAlerts :: "env \<Rightarrow> string \<Rightarrow> error + AlertResult" where
  "getWeatherAlerts e loc =
    (case getCurrentWeather e loc of
       Inl err \<Rightarrow> Inl err
     | Inr weather \<Rightarrow> Inr (alertResultOf weather))"

subsection \<open>getClothingRecommendations\<close>

record ClothingRecommendation =
  layers :: "string list"
  accessories :: "string list"
  footwear :: string
  cl_notes :: string

record ClothingResult =
  cl_location :: string
  cl_temperature :: real
  cl_conditions :: string
  cl_recommendations :: ClothingRecommendation

text \<open>\<open>String.prototype.includes\<close>: the needle occurs as a contiguous part.\<close>

fun includes_str :: "string \<Rightarrow> string \<Rightarrow> bool" where
  "includes_str [] needle = (needle = [])"
| "includes_str (c # cs) needle = (prefix needle (c # cs) \<or> includes_str cs needle)"

text \<open>
  The four branches of the \<open>if\<close> ladder on the temperature, each with the layers,
  accessories and footwear it assigns, and the ladder itself.
\<close>

definition freezingTier :: "string list \<times> string list \<times> string" where
  "freezingTier =
    ([''Thermal base layer'', ''Insulated mid-layer'', ''Waterproof jacket''],
     [''Warm hat'', ''Gloves'', ''Scarf''],
     ''Insulated waterproof boots'')"

definition coldTier :: "string list \<times> string list \<times> string" where
  "coldTier =
    ([''Long-sleeve shirt'', ''Fleece or sweater'', ''Light jacket''],
     [''Light hat'', ''Gloves if windy''],
     ''Closed shoes or boots'')"

definition mildTier :: "string list \<times> string list \<times> string" where
  "mildTier =
    ([''T-shirt'', ''Light jacket or hoodie''],
     [],
     ''Sneakers or comfortable shoes'')"

definition warmTier :: "string list \<times> string list \<times> string" where
  "warmTier =
    ([''T-shirt or light top''],
     [''Sunglasses'', ''Hat for sun protection''],
     ''Sandals or breathable shoes'')"

definition baseTier :: "real \<Rightarrow> string list \<times> string list \<times> string" where
  "baseTier t =
    (if t < 0 then freezingTier
     else if t < 10 then coldTier
     else if t < 20 then mildTier
     else warmTier)"

definition clothingResultOf :: "WeatherRecord \<Rightarrow> string option \<Rightarrow> ClothingResult" where
  "clothingResultOf weather act =
    (let (layers0, accessories0, footwear0) = baseTier (temperature weather);
         notes0 = [];
         (accessories1, notes1) =
           (if precipitation weather > 5
            then (accessories0 @ [''Umbrella'', ''Waterproof jacket''],
                  ''Expect rain, bring waterproof gear'')
            else (accessories0, notes0));
         hiking = (case act of None \<Rightarrow> False | Some a \<Rightarrow> includes_str (toLowerCase a) ''hiking'');
         (footwear1, accessories2) =
           (if hiking then (''Hiking boots'', accessories1 @ [''Backpack'', ''Water bottle''])
            else (footwear0, accessories1))
     in \<lparr> cl_location = location weather,
          cl_temperature = temperature weather,
          cl_conditions = conditions weather,
          cl_recommendations =
            \<lparr> layers = layers0,
              accessories = accessories2,
              footwear = footwear1,
              cl_notes = (if notes1 = [] then ''Dress comfortably for the conditions'' else notes1) \<rparr> \<rparr>)"

definition getClothingRecommendations :: "env \<Rightarrow> string \<Rightarrow> string option \<Rightarrow> error + ClothingResult" where
  "getClothingRecommendations e loc act =
    (case getCurrentWeather e loc of
       Inl err \<Rightarrow> Inl err
     | Inr weather \<Rightarrow> Inr (clothingResultOf weather act))"

section \<open>The scorers (src/mastra/scorers/weather-scorer.ts)\<close>

text \<open>
  \<open>generateScore\<close> receives the judge's output untyped (\<open>results as any\<close>) and
  reads the verdict as a property name of the object literal \<open>scoreMap\<close>. A property
  read on an object literal finds the object's own properties first and then the members
  every object inherits from \<open>Object.prototype\<close>; these are functions or objects, so they
  are truthy and convert to \<open>NaN\<close> in arithmetic. The values that can flow through the
  score step are therefore \<open>undefined\<close>, a number, \<open>NaN\<close> or such an inherited member.
  A \<open>Number\<close> stands for a finite double and carries the real number that the source
  or the judge's output writes for it. The product of two doubles is rounded to a double and
  is not the product of these reals (0.8 times 0.7 is 0.5599999999999999), so the score
  step takes the multiplication of doubles as a parameter \<open>doubleProduct\<close>, of which the
  definitions assume nothing.
\<close>

datatype jsvalue = Undefined | Number real | NaN | Inherited string

definition objectPrototypeNames :: "string list" where
  "objectPrototypeNames =
    [''constructor'', ''hasOwnProperty'', ''isPrototypeOf'', ''propertyIsEnumerable'',
     ''toLocaleString'', ''toString'', ''valueOf'', ''__proto__'',
     ''__defineGetter__'', ''__defineSetter__'', ''__lookupGetter__'', ''__lookupSetter__'']"

text \<open>\<open>obj[key]\<close> for an object literal with numeric values; the key \<open>undefined\<close> names no property.\<close>

definition getProperty :: "(string \<times> real) list \<Rightarrow> string option \<Rightarrow> jsvalue" where
  "getProperty obj key =
    (case key of
       None \<Rightarrow> Undefined
     | Some k \<Rightarrow>
        (case map_of obj k of
           Some v \<Rightarrow> Number v
         | None \<Rightarrow> if k \<in> set objectPrototypeNames then Inherited k else Undefined))"

fun truthy :: "jsvalue \<Rightarrow> bool" where
  "truthy Undefined = False"
| "truthy (Number x) = (x \<noteq> 0)"
| "truthy NaN = False"
| "truthy (Inherited k) = True"

text \<open>\<open>a || b\<close>, \<open>a * b\<close>, \<open>Math.min(a, b)\<close> and \<open>Math.max(a, b)\<close>.\<close>

definition orElse :: "jsvalue \<Rightarrow> jsvalue \<Rightarrow> jsvalue" where
  "orElse a b = (if truthy a then a else b)"

fun times :: "(real \<Rightarrow> real \<Rightarrow> real) \<Rightarrow> jsvalue \<Rightarrow> jsvalue \<Rightarrow> jsvalue" where
  "times doubleProduct (Number x) (Number y) = Number (doubleProduct x y)"
| "times doubleProduct a b = NaN"

fun mathMin :: "jsvalue \<Rightarrow> jsvalue \<Rightarrow> jsvalue" where
  "mathMin (Number x) (Number y) = Number (min x y)"
| "mathMin a b = NaN"

fun mathMax :: "jsvalue \<Rightarrow> jsvalue \<Rightarrow> jsvalue" where
  "mathMax (Number x) (Number y) = Number (max x y)"
| "mathMax a b = NaN"

text \<open>
  The fields of the judge's output that the two score steps read; \<open>|| {}\<close> makes every
  field \<open>undefined\<close> when the output is missing.
\<close>

record ToolAnalysis =
  appropriateness :: "string option"
  confidence :: "real option"

record CompletenessAnalysis =
  completeness :: "string option"

definition toolScoreMap :: "(string \<times> real) list" where
  "toolScoreMap = [(''excellent'', 1.0), (''good'', 0.8), (''fair'', 0.5), (''poor'', 0.2)]"

definition completenessScoreMap :: "(string \<times> real) list" where
  "completenessScoreMap =
    [(''complete'', 1.0), (''mostly_complete'', 0.8), (''partial'', 0.5), (''incomplete'', 0.2)]"

definition toolCallAppropriateness_generateScore ::
  "(real \<Rightarrow> real \<Rightarrow> real) \<Rightarrow> ToolAnalysis option \<Rightarrow> jsvalue" where
  "toolCallAppropriateness_generateScore doubleProduct analyzeStepResult =
    (let r = (case analyzeStepResult of
                None \<Rightarrow> \<lparr> appropriateness = None, confidence = None \<rparr>
              | Some a \<Rightarrow> a);
         baseScore = orElse (getProperty toolScoreMap (appropriateness r)) (Number 0.5)
     in mathMax (Number 0)
          (mathMin (Number 1)
             (times doubleProduct baseScore
                (Number (case confidence r of None \<Rightarrow> 1 | Some c \<Rightarrow> c)))))"

definition completeness_generateScore :: "CompletenessAnalysis option \<Rightarrow> jsvalue" where
  "completeness_generateScore analyzeStepResult =
    (let r = (case analyzeStepResult of
                None \<Rightarrow> \<lparr> completeness = None \<rparr>
              | Some a \<Rightarrow> a)
     in orElse (getProperty completenessScoreMap (completeness r)) (Number 0.5))"

section \<open>A stubbed provider\<close>

text \<open>
  Concrete payloads for running the tools: Paris, a clear reading of 22 degrees, a forecast
  payload with two dates in descending order and one with three dates in ascending order.
\<close>

definition paris :: GeocodingResult where
  "paris = \<lparr> latitude = 48.85, longitude = 2.35, name = ''Paris'',
             geo_country = ''France'', admin1 = None \<rparr>"

definition clearAt22 :: CurrentWeatherResponse where
  "clearAt22 =
    \<lparr> current =
        \<lparr> time = ''2025-06-01T12:00'', temperature_2m = 22, apparent_temperature = 21,
          relative_humidity_2m = 50, wind_speed_10m = 10, wind_gusts_10m = 15,
          weather_code = 0, cur_precipitation = 0, uv_index = Some 5 \<rparr> \<rparr>"

definition twoDaysDescending :: ForecastResponse where
  "twoDaysDescending =
    \<lparr> daily =
        \<lparr> daily_time = [''2025-06-02'', ''2025-06-01''],
          temperature_2m_max = [25, 24],
          temperature_2m_min = [15, 14],
          daily_weather_code = [0, 3],
          precipitation_probability_max = [10, 20],
          wind_speed_10m_max = [12, 14],
          uv_index_max = [6, 5] \<rparr> \<rparr>"

definition threeDays :: ForecastResponse where
  "threeDays =
    \<lparr> daily =
        \<lparr> daily_time = [''2025-06-01'', ''2025-06-02'', ''2025-06-03''],
          temperature_2m_max = [24, 25, 19],
          temperature_2m_min = [14, 15, 11],
          daily_weather_code = [3, 0, 61],
          precipitation_probability_max = [20, 10, 80],
          wind_speed_10m_max = [14, 12, 20],
          uv_index_max = [5, 6, 2] \<rparr> \<rparr>"

definition stubEnv :: env where
  "stubEnv =
    \<lparr> geocodingApi = (\<lambda>loc. Inr \<lparr> results = Some [paris] \<rparr>),
      currentApi = (\<lambda>lat lon. Inr clearAt22),
      forecastApi = (\<lambda>lat lon days. Inr threeDays),
      numberToString = (\<lambda>x. ''22'') \<rparr>"

text \<open>
  The names and suitabilities that the recommender returns for Paris under the stub, a
  reading at the lower bound of the hiking range, and a rainy reading of 22 degrees.
\<close>

definition stubbedRecommendations :: "(string \<times> suitability) list" where
  "stubbedRecommendations =
    (case getActivityRecommendations stubEnv ''Paris'' None of
       Inl err \<Rightarrow> []
     | Inr r \<Rightarrow> map (\<lambda>x. (rec_activity x, suitability x)) (recommendations r))"

definition hikingAtLowerBound :: WeatherRecord where
  "hikingAtLowerBound = (weatherRecordOf paris clearAt22) \<lparr> temperature := 10 \<rparr>"

definition rainyAt22 :: WeatherRecord where
  "rainyAt22 = (weatherRecordOf paris clearAt22) \<lparr> precipitation := 6 \<rparr>"

text \<open>
  A reading with heavy rain and high winds, a reading with the precipitation exactly at the
  alert threshold, and a provider whose forecast payload has two dates, in descending
  order, whatever number of days is requested.
\<close>

definition stormy :: WeatherRecord where
  "stormy = (weatherRecordOf paris clearAt22) \<lparr> windSpeed := 45, precipitation := 20.01 \<rparr>"

definition rainAtThreshold :: WeatherRecord where
  "rainAtThreshold = (weatherRecordOf paris clearAt22) \<lparr> precipitation := 20 \<rparr>"

definition shortEnv :: env where
  "shortEnv = stubEnv \<lparr> forecastApi := (\<lambda>lat lon days. Inr twoDaysDescending) \<rparr>"

section \<open>Properties\<close>

subsection \<open>The tools compose the fetch with the computation\<close>

lemma getActivityRecommendations_result:
  "getActivityRecommendations e loc interests =
    (case getCurrentWeather e loc of
       Inl err \<Rightarrow> Inl err
     | Inr w \<Rightarrow> Inr (activityResultOf e w interests))"
  by (simp add: getActivityRecommendations_def)

lemma getWeatherAlerts_result:
  "getCurrentWeather e loc = Inr w \<Longrightarrow> getWeatherAlerts e loc = Inr (alertResultOf w)"
  by (simp add: getWeatherAlerts_def)

lemma getClothingRecommendations_result:
  "getCurrentWeather e loc = Inr w \<Longrightarrow>
   getClothingRecommendations e loc act = Inr (clothingResultOf w act)"
  by (simp add: getClothingRecommendations_def)

lemma tools_propagate_errors:
  assumes "getCurrentWeather e loc = Inl err"
  shows "getActivityRecommendations e loc interests = Inl err"
    and "getWeatherAlerts e loc = Inl err"
    and "getClothingRecommendations e loc act = Inl err"
  using assms
  by (simp_all add: getActivityRecommendations_def getWeatherAlerts_def
      getClothingRecommendations_def)

subsection \<open>The condition code translator\<close>

lemma conditionTable_distinct: "distinct (map fst conditionTable)"
  by (simp add: conditionTable_def)

lemma conditionTable_labels_nonempty: "(c, l) \<in> set conditionTable \<Longrightarrow> l \<noteq> []"
  by (auto simp add: conditionTable_def)

text \<open>
  C5. The translator is a total function on the integers: a code of the table gets exactly
  the label the table gives it, and every other integer gets \<open>Unknown\<close>. The table has
  28 codes.
\<close>

theorem getWeatherCondition_table:
  "(\<forall>(c, l) \<in> set conditionTable. getWeatherCondition c = l) \<and>
   (\<forall>c. c \<notin> fst ` set conditionTable \<longrightarrow> getWeatherCondition c = ''Unknown'') \<and>
   length conditionTable = 28"
proof (intro conjI)
  show "\<forall>(c, l) \<in> set conditionTable. getWeatherCondition c = l"
  proof (clarify)
    fix c l
    assume in_table: "(c, l) \<in> set conditionTable"
    then have "map_of conditionTable c = Some l"
      using conditionTable_distinct by simp
    moreover have "l \<noteq> []"
      using in_table by (rule conditionTable_labels_nonempty)
    ultimately show "getWeatherCondition c = l"
      by (simp add: getWeatherCondition_def)
  qed
next
  show "\<forall>c. c \<notin> fst ` set conditionTable \<longrightarrow> getWeatherCondition c = ''Unknown''"
  proof (intro allI impI)
    fix c :: int
    assume "c \<notin> fst ` set conditionTable"
    then have "map_of conditionTable c = None"
      by (simp add: map_of_eq_None_iff)
    then show "getWeatherCondition c = ''Unknown''"
      by (simp add: getWeatherCondition_def)
  qed
next
  show "length conditionTable = 28"
    by (simp add: conditionTable_def)
qed

theorem getWeatherCondition_table_witness:
  "getWeatherCondition 0 = ''Clear sky'' \<and> getWeatherCondition 99 = ''Thunderstorm with heavy hail'' \<and>
   getWeatherCondition 4 = ''Unknown'' \<and> getWeatherCondition (- 1) = ''Unknown''"
proof -
  have a: "(0, ''Clear sky'') \<in> set conditionTable"
    and b: "(99, ''Thunderstorm with heavy hail'') \<in> set conditionTable"
    by (simp_all add: conditionTable_def)
  have c: "(4::int) \<notin> fst ` set conditionTable" and d: "(- 1::int) \<notin> fst ` set conditionTable"
    by (simp_all add: conditionTable_def)
  have known: "\<And>k l. (k, l) \<in> set conditionTable \<Longrightarrow> getWeatherCondition k = l"
    using getWeatherCondition_table by fast
  have unknown: "\<And>k. k \<notin> fst ` set conditionTable \<Longrightarrow> getWeatherCondition k = ''Unknown''"
    using getWeatherCondition_table by fast
  show ?thesis
    using known [OF a] known [OF b] unknown [OF c] unknown [OF d] by simp
qed

subsection \<open>The activity recommender\<close>

lemma recommendations_activityResultOf:
  "recommendations (activityResultOf e w i) = take 5 (mappedSurvivors e w)"
  by (simp add: activityResultOf_def)

lemma mappedSurvivors_iff:
  "r \<in> set (mappedSurvivors e w) \<longleftrightarrow>
    (\<exists>act \<in> set allActivities. tempSuitable w act \<and> conditionsSuitable w act \<and> r = recommendationOf e w act)"
  by (auto simp add: mappedSurvivors_def)

lemma subseq_take_self: "subseq (take n xs) xs"
  by (metis append_take_drop_id list_emb_append2 subseq_order.order_refl prefix_imp_subseq take_is_prefix)

lemma mappedSurvivors_names_subseq:
  "subseq (map rec_activity (mappedSurvivors e w)) (map activity allActivities)"
proof -
  have "map rec_activity (mappedSurvivors e w) =
        map activity (filter (\<lambda>act. tempSuitable w act \<and> conditionsSuitable w act) allActivities)"
    by (simp add: mappedSurvivors_def recommendationOf_def comp_def)
  then show ?thesis
    by (simp add: subseq_map)
qed

text \<open>
  C1. For every weather record the recommender returns at most 5 recommendations; every
  recommendation is that of a catalog activity whose inclusive range \<open>[min, max]\<close>
  contains the current temperature and which either lists \<open>All\<close> or lists the current
  condition label; and the returned activities appear in catalog order: they are the first
  five of the catalog activities that pass the two tests.
\<close>

theorem activity_recommendations_sound:
  "length (recommendations (activityResultOf e w i)) \<le> 5 \<and>
   (\<forall>r \<in> set (recommendations (activityResultOf e w i)).
      \<exists>act \<in> set allActivities.
        rec_activity r = activity act \<and>
        tempRange act ! 0 \<le> temperature w \<and> temperature w \<le> tempRange act ! 1 \<and>
        (''All'' \<in> set (act_conditions act) \<or> conditions w \<in> set (act_conditions act))) \<and>
   subseq (map rec_activity (recommendations (activityResultOf e w i))) (map activity allActivities) \<and>
   map rec_activity (recommendations (activityResultOf e w i)) =
     take 5 (map activity
       (filter (\<lambda>act. tempRange act ! 0 \<le> temperature w \<and> temperature w \<le> tempRange act ! 1 \<and>
                  (''All'' \<in> set (act_conditions act) \<or> conditions w \<in> set (act_conditions act)))
          allActivities))"
proof (intro conjI ballI)
  show "length (recommendations (activityResultOf e w i)) \<le> 5"
    by (simp add: recommendations_activityResultOf)
next
  show "map rec_activity (recommendations (activityResultOf e w i)) =
     take 5 (map activity
       (filter (\<lambda>act. tempRange act ! 0 \<le> temperature w \<and> temperature w \<le> tempRange act ! 1 \<and>
                  (''All'' \<in> set (act_conditions act) \<or> conditions w \<in> set (act_conditions act)))
          allActivities))"
    by (simp add: recommendations_activityResultOf mappedSurvivors_def recommendationOf_def
        tempSuitable_def conditionsSuitable_def comp_def take_map)
next
  fix r
  assume "r \<in> set (recommendations (activityResultOf e w i))"
  then have "r \<in> set (mappedSurvivors e w)"
    by (auto simp add: recommendations_activityResultOf dest: in_set_takeD)
  then obtain act where act: "act \<in> set allActivities" "tempSuitable w act"
      "conditionsSuitable w act" "r = recommendationOf e w act"
    by (auto simp add: mappedSurvivors_iff)
  then show "\<exists>act \<in> set allActivities.
        rec_activity r = activity act \<and>
        tempRange act ! 0 \<le> temperature w \<and> temperature w \<le> tempRange act ! 1 \<and>
        (''All'' \<in> set (act_conditions act) \<or> conditions w \<in> set (act_conditions act))"
    by (auto simp add: tempSuitable_def conditionsSuitable_def recommendationOf_def)
next
  have "subseq (take 5 (map rec_activity (mappedSurvivors e w))) (map rec_activity (mappedSurvivors e w))"
    by (rule subseq_take_self)
  then have "subseq (take 5 (map rec_activity (mappedSurvivors e w))) (map activity allActivities)"
    using mappedSurvivors_names_subseq subseq_order.order_trans by blast
  then show "subseq (map rec_activity (recommendations (activityResultOf e w i))) (map activity allActivities)"
    by (simp add: recommendations_activityResultOf take_map)
qed

lemma allActivities_names_distinct: "distinct (map activity allActivities)"
  by (simp add: allActivities_def)

text \<open>
  C2. Every survivor of the filter is rated \<open>Excellent\<close> exactly when the temperature is
  at least 5 degrees inside both bounds of its range, \<open>Fair\<close> exactly when it is not and
  the precipitation exceeds 5, and \<open>Good\<close> exactly when neither holds; \<open>Poor\<close> is never
  produced. Every surviving catalog activity is rated, the catalog names are distinct, and
  the returned recommendations are among the rated survivors.
\<close>

theorem survivor_suitability:
  "(\<forall>r \<in> set (mappedSurvivors e w).
      \<exists>act \<in> set allActivities.
        tempSuitable w act \<and> conditionsSuitable w act \<and> rec_activity r = activity act \<and>
        (suitability r = Excellent \<longleftrightarrow>
           temperature w \<ge> tempRange act ! 0 + 5 \<and> temperature w \<le> tempRange act ! 1 - 5) \<and>
        (suitability r = Fair \<longleftrightarrow>
           \<not> (temperature w \<ge> tempRange act ! 0 + 5 \<and> temperature w \<le> tempRange act ! 1 - 5) \<and>
           precipitation w > 5) \<and>
        (suitability r = Good \<longleftrightarrow>
           \<not> (temperature w \<ge> tempRange act ! 0 + 5 \<and> temperature w \<le> tempRange act ! 1 - 5) \<and>
           \<not> precipitation w > 5) \<and>
        suitability r \<noteq> Poor) \<and>
   (\<forall>act \<in> set allActivities.
      tempSuitable w act \<and> conditionsSuitable w act \<longrightarrow>
      (\<exists>r \<in> set (mappedSurvivors e w). rec_activity r = activity act)) \<and>
   distinct (map activity allActivities) \<and>
   set (recommendations (activityResultOf e w i)) \<subseteq> set (mappedSurvivors e w)"
proof (intro conjI ballI impI)
  fix r
  assume "r \<in> set (mappedSurvivors e w)"
  then obtain act where act: "act \<in> set allActivities" "tempSuitable w act"
      "conditionsSuitable w act" and r: "r = recommendationOf e w act"
    by (auto simp add: mappedSurvivors_iff)
  have name: "rec_activity r = activity act" and suit: "suitability r = suitabilityOf w act"
    using r by (simp_all add: recommendationOf_def)
  show "\<exists>act \<in> set allActivities.
        tempSuitable w act \<and> conditionsSuitable w act \<and> rec_activity r = activity act \<and>
        (suitability r = Excellent \<longleftrightarrow>
           temperature w \<ge> tempRange act ! 0 + 5 \<and> temperature w \<le> tempRange act ! 1 - 5) \<and>
        (suitability r = Fair \<longleftrightarrow>
           \<not> (temperature w \<ge> tempRange act ! 0 + 5 \<and> temperature w \<le> tempRange act ! 1 - 5) \<and>
           precipitation w > 5) \<and>
        (suitability r = Good \<longleftrightarrow>
           \<not> (temperature w \<ge> tempRange act ! 0 + 5 \<and> temperature w \<le> tempRange act ! 1 - 5) \<and>
           \<not> precipitation w > 5) \<and>
        suitability r \<noteq> Poor"
  proof (rule bexI [OF _ act(1)], intro conjI)
    show "tempSuitable w act" "conditionsSuitable w act" "rec_activity r = activity act"
      using act name by simp_all
  qed (simp_all add: suit suitabilityOf_def)
next
  fix act
  assume "act \<in> set allActivities" "tempSuitable w act \<and> conditionsSuitable w act"
  then have "recommendationOf e w act \<in> set (mappedSurvivors e w)"
    by (auto simp add: mappedSurvivors_iff)
  moreover have "rec_activity (recommendationOf e w act) = activity act"
    by (simp add: recommendationOf_def)
  ultimately show "\<exists>r \<in> set (mappedSurvivors e w). rec_activity r = activity act"
    by (rule bexI [rotated])
next
  show "distinct (map activity allActivities)"
    by (rule allActivities_names_distinct)
next
  show "set (recommendations (activityResultOf e w i)) \<subseteq> set (mappedSurvivors e w)"
    by (simp add: recommendations_activityResultOf set_take_subset)
qed

lemma survivors_at_22_clear:
  assumes "temperature w = 22" and "conditions w = ''Clear sky''"
  shows "map (\<lambda>r. (rec_activity r, suitability r)) (mappedSurvivors e w) =
    [(''Hiking'', Excellent), (''Beach'', if precipitation w > 5 then Fair else Good),
     (''Cycling'', Excellent), (''Picnic'', Excellent), (''Museum'', Excellent),
     (''Shopping'', Excellent), (''Restaurant'', Excellent)]"
  using assms
  by (simp add: mappedSurvivors_def allActivities_def tempSuitable_def conditionsSuitable_def
      recommendationOf_def suitabilityOf_def)

text \<open>
  C9. The recommender's output does not depend on the \<open>interests\<close> argument: any two
  values of it, absent or present, give the same result for the same weather record and
  the same result (or the same error) for the same location.
\<close>

theorem interests_ignored:
  "activityResultOf e w interests1 = activityResultOf e w interests2 \<and>
   getActivityRecommendations e loc interests1 = getActivityRecommendations e loc interests2"
  by (simp add: activityResultOf_def getActivityRecommendations_def split: sum.split)

lemma stub_geocode: "geocodeLocation stubEnv loc = Inr paris"
  by (simp add: geocodeLocation_def stubEnv_def)

lemma stub_current: "getCurrentWeather stubEnv loc = Inr (weatherRecordOf paris clearAt22)"
  by (simp add: getCurrentWeather_def stub_geocode) (simp add: stubEnv_def)

lemma clearAt22_record:
  "temperature (weatherRecordOf paris clearAt22) = 22"
  "conditions (weatherRecordOf paris clearAt22) = ''Clear sky''"
  "precipitation (weatherRecordOf paris clearAt22) = 0"
  by (simp_all add: weatherRecordOf_def clearAt22_def getWeatherCondition_def conditionTable_def)

text \<open>
  C8, as the code has it. When the provider returns weather code 0 and temperature 22, the
  current conditions are \<open>Clear sky\<close>, all seven catalog activities survive the filter and
  the first five are returned: Hiking, Beach, Cycling, Picnic and Museum, in this order.
  Hiking, Cycling, Picnic and Museum are \<open>Excellent\<close>; Beach is not, since 22 is less than
  5 degrees above its lower bound 20: it is \<open>Fair\<close> when the precipitation exceeds 5 and
  \<open>Good\<close> otherwise. Shopping and Restaurant are cut off by the limit of five.
\<close>

theorem clear_22_scenario:
  assumes geo: "geocodeLocation e loc = Inr g"
    and cur: "currentApi e (latitude g) (longitude g) = Inr data"
    and code: "weather_code (current data) = 0"
    and temp: "temperature_2m (current data) = 22"
  shows "getCurrentWeather e loc = Inr (weatherRecordOf g data) \<and>
         conditions (weatherRecordOf g data) = ''Clear sky'' \<and>
         getActivityRecommendations e loc interests =
           Inr (activityResultOf e (weatherRecordOf g data) interests) \<and>
         map (\<lambda>x. (rec_activity x, suitability x))
           (recommendations (activityResultOf e (weatherRecordOf g data) interests)) =
           [(''Hiking'', Excellent),
            (''Beach'', if cur_precipitation (current data) > 5 then Fair else Good),
            (''Cycling'', Excellent), (''Picnic'', Excellent), (''Museum'', Excellent)]"
proof -
  let ?w = "weatherRecordOf g data"
  have w: "getCurrentWeather e loc = Inr ?w"
    by (simp add: getCurrentWeather_def geo cur)
  have c: "conditions ?w = ''Clear sky''"
    by (simp add: weatherRecordOf_def code getWeatherCondition_def conditionTable_def)
  have t: "temperature ?w = 22" and p: "precipitation ?w = cur_precipitation (current data)"
    by (simp_all add: weatherRecordOf_def temp)
  have r: "getActivityRecommendations e loc interests = Inr (activityResultOf e ?w interests)"
    by (simp add: getActivityRecommendations_def w)
  have "map (\<lambda>x. (rec_activity x, suitability x)) (recommendations (activityResultOf e ?w interests)) =
        take 5 (map (\<lambda>x. (rec_activity x, suitability x)) (mappedSurvivors e ?w))"
    by (simp add: recommendations_activityResultOf take_map)
  also have "\<dots> = [(''Hiking'', Excellent),
              (''Beach'', if cur_precipitation (current data) > 5 then Fair else Good),
              (''Cycling'', Excellent), (''Picnic'', Excellent), (''Museum'', Excellent)]"
    by (simp add: survivors_at_22_clear [OF t c] p)
  finally show ?thesis
    using w c r by simp
qed

theorem clear_22_scenario_witness:
  "stubbedRecommendations =
     [(''Hiking'', Excellent), (''Beach'', Good), (''Cycling'', Excellent),
      (''Picnic'', Excellent), (''Museum'', Excellent)]"
proof -
  have code: "weather_code (current clearAt22) = 0" and temp: "temperature_2m (current clearAt22) = 22"
    and dry: "cur_precipitation (current clearAt22) = 0"
    by (simp_all add: clearAt22_def)
  have cur: "currentApi stubEnv (latitude paris) (longitude paris) = Inr clearAt22"
    by (simp add: stubEnv_def)
  from clear_22_scenario [OF stub_geocode cur code temp, of "''Paris''" None]
  show ?thesis
    by (auto simp add: stubbedRecommendations_def dry)
qed

text \<open>
  C8 as stated fails on the stubbed provider: Beach is not \<open>Excellent\<close>, Museum is not
  \<open>Good\<close>, and Shopping and Restaurant are not returned.
\<close>

theorem clear_22_scenario_counterexample:
  "conditions (weatherRecordOf paris clearAt22) = ''Clear sky'' \<and>
   getCurrentWeather stubEnv ''Paris'' = Inr (weatherRecordOf paris clearAt22) \<and>
   (''Hiking'', Excellent) \<in> set stubbedRecommendations \<and>
   (''Beach'', Excellent) \<notin> set stubbedRecommendations \<and>
   (''Museum'', Good) \<notin> set stubbedRecommendations \<and>
   ''Shopping'' \<notin> fst ` set stubbedRecommendations \<and>
   ''Restaurant'' \<notin> fst ` set stubbedRecommendations"
proof -
  have "map (\<lambda>x. (rec_activity x, suitability x))
          (recommendations (activityResultOf stubEnv (weatherRecordOf paris clearAt22) None)) =
        take 5 (map (\<lambda>x. (rec_activity x, suitability x))
          (mappedSurvivors stubEnv (weatherRecordOf paris clearAt22)))"
    by (simp add: recommendations_activityResultOf take_map)
  also have "\<dots> = [(''Hiking'', Excellent), (''Beach'', Good), (''Cycling'', Excellent),
      (''Picnic'', Excellent), (''Museum'', Excellent)]"
    by (simp add: survivors_at_22_clear [OF clearAt22_record(1) clearAt22_record(2)] clearAt22_record(3))
  finally have run: "stubbedRecommendations = [(''Hiking'', Excellent), (''Beach'', Good), (''Cycling'', Excellent),
      (''Picnic'', Excellent), (''Museum'', Excellent)]"
    by (simp add: stubbedRecommendations_def getActivityRecommendations_def stub_current)
  show ?thesis
    unfolding run by (simp add: clearAt22_record stub_current)
qed

lemma hikingAtLowerBound_names:
  "map rec_activity (mappedSurvivors e hikingAtLowerBound) =
     [''Hiking'', ''Cycling'', ''Museum'', ''Shopping'', ''Restaurant'']"
  by (simp add: hikingAtLowerBound_def weatherRecordOf_def clearAt22_def getWeatherCondition_def
      conditionTable_def mappedSurvivors_def allActivities_def tempSuitable_def
      conditionsSuitable_def recommendationOf_def)

theorem activity_recommendations_sound_witness:
  "map rec_activity (recommendations (activityResultOf stubEnv hikingAtLowerBound None)) =
     [''Hiking'', ''Cycling'', ''Museum'', ''Shopping'', ''Restaurant''] \<and>
   length (recommendations (activityResultOf stubEnv hikingAtLowerBound None)) \<le> 5 \<and>
   (\<exists>act \<in> set allActivities.
      activity act = ''Hiking'' \<and> tempRange act ! 0 = 10 \<and>
      tempRange act ! 0 \<le> temperature hikingAtLowerBound \<and>
      temperature hikingAtLowerBound \<le> tempRange act ! 1 \<and>
      (''All'' \<in> set (act_conditions act) \<or>
       conditions hikingAtLowerBound \<in> set (act_conditions act))) \<and>
   subseq [''Hiking'', ''Cycling'', ''Museum'', ''Shopping'', ''Restaurant'']
     (map activity allActivities)"
proof -
  let ?recs = "recommendations (activityResultOf stubEnv hikingAtLowerBound None)"
  have names: "map rec_activity ?recs = [''Hiking'', ''Cycling'', ''Museum'', ''Shopping'', ''Restaurant'']"
    by (simp add: recommendations_activityResultOf hikingAtLowerBound_names flip: take_map)
  then obtain r rs where recs: "?recs = r # rs" and r: "rec_activity r = ''Hiking''"
    by (cases ?recs) auto
  note sound = activity_recommendations_sound [of stubEnv hikingAtLowerBound None]
  from sound have len: "length ?recs \<le> 5"
    by (rule conjunct1)
  from sound have "\<forall>r \<in> set ?recs. \<exists>act \<in> set allActivities.
        rec_activity r = activity act \<and>
        tempRange act ! 0 \<le> temperature hikingAtLowerBound \<and>
        temperature hikingAtLowerBound \<le> tempRange act ! 1 \<and>
        (''All'' \<in> set (act_conditions act) \<or>
         conditions hikingAtLowerBound \<in> set (act_conditions act))"
    by (rule conjunct2 [THEN conjunct1])
  moreover have "r \<in> set ?recs"
    by (simp add: recs)
  ultimately obtain act where act: "act \<in> set allActivities" "rec_activity r = activity act"
    "tempRange act ! 0 \<le> temperature hikingAtLowerBound"
    "temperature hikingAtLowerBound \<le> tempRange act ! 1"
    "''All'' \<in> set (act_conditions act) \<or> conditions hikingAtLowerBound \<in> set (act_conditions act)"
    by blast
  have "(activity act, tempRange act) \<in> (\<lambda>a. (activity a, tempRange a)) ` set allActivities"
    using act(1) by (rule imageI)
  then have "tempRange act ! 0 = 10"
    using act(2) r by (auto simp add: allActivities_def)
  then have hiking: "\<exists>act \<in> set allActivities.
      activity act = ''Hiking'' \<and> tempRange act ! 0 = 10 \<and>
      tempRange act ! 0 \<le> temperature hikingAtLowerBound \<and>
      temperature hikingAtLowerBound \<le> tempRange act ! 1 \<and>
      (''All'' \<in> set (act_conditions act) \<or>
       conditions hikingAtLowerBound \<in> set (act_conditions act))"
    using act r by (intro bexI [of _ act]) simp_all
  from sound have "subseq (map rec_activity ?recs) (map activity allActivities)"
    by (rule conjunct2 [THEN conjunct2, THEN conjunct1])
  then have "subseq [''Hiking'', ''Cycling'', ''Museum'', ''Shopping'', ''Restaurant'']
     (map activity allActivities)"
    by (simp only: names)
  with names len hiking show ?thesis
    by (intro conjI)
qed

lemma rainyAt22_record:
  "temperature rainyAt22 = 22" "conditions rainyAt22 = ''Clear sky''" "precipitation rainyAt22 = 6"
  by (simp_all add: rainyAt22_def clearAt22_record)

theorem survivor_suitability_witness:
  "map (\<lambda>r. (rec_activity r, suitability r)) (mappedSurvivors stubEnv rainyAt22) =
     [(''Hiking'', Excellent), (''Beach'', Fair), (''Cycling'', Excellent), (''Picnic'', Excellent),
      (''Museum'', Excellent), (''Shopping'', Excellent), (''Restaurant'', Excellent)] \<and>
   (\<exists>r \<in> set (mappedSurvivors stubEnv rainyAt22). \<exists>act \<in> set allActivities.
      activity act = ''Beach'' \<and> rec_activity r = ''Beach'' \<and> suitability r = Fair \<and>
      tempSuitable rainyAt22 act \<and> conditionsSuitable rainyAt22 act \<and>
      \<not> (temperature rainyAt22 \<ge> tempRange act ! 0 + 5 \<and>
         temperature rainyAt22 \<le> tempRange act ! 1 - 5) \<and>
      precipitation rainyAt22 > 5)"
proof -
  let ?all = "mappedSurvivors stubEnv rainyAt22"
  have run: "map (\<lambda>r. (rec_activity r, suitability r)) ?all =
     [(''Hiking'', Excellent), (''Beach'', Fair), (''Cycling'', Excellent), (''Picnic'', Excellent),
      (''Museum'', Excellent), (''Shopping'', Excellent), (''Restaurant'', Excellent)]"
    by (simp add: survivors_at_22_clear [OF rainyAt22_record(1) rainyAt22_record(2)] rainyAt22_record(3))
  then have "(''Beach'', Fair) \<in> set (map (\<lambda>r. (rec_activity r, suitability r)) ?all)"
    by simp
  then obtain r where r: "r \<in> set ?all" "rec_activity r = ''Beach''" "suitability r = Fair"
    by auto
  from survivor_suitability [of stubEnv rainyAt22 None]
  have "\<forall>r \<in> set ?all.
      \<exists>act \<in> set allActivities.
        tempSuitable rainyAt22 act \<and> conditionsSuitable rainyAt22 act \<and> rec_activity r = activity act \<and>
        (suitability r = Excellent \<longleftrightarrow>
           temperature rainyAt22 \<ge> tempRange act ! 0 + 5 \<and> temperature rainyAt22 \<le> tempRange act ! 1 - 5) \<and>
        (suitability r = Fair \<longleftrightarrow>
           \<not> (temperature rainyAt22 \<ge> tempRange act ! 0 + 5 \<and> temperature rainyAt22 \<le> tempRange act ! 1 - 5) \<and>
           precipitation rainyAt22 > 5) \<and>
        (suitability r = Good \<longleftrightarrow>
           \<not> (temperature rainyAt22 \<ge> tempRange act ! 0 + 5 \<and> temperature rainyAt22 \<le> tempRange act ! 1 - 5) \<and>
           \<not> precipitation rainyAt22 > 5) \<and>
        suitability r \<noteq> Poor"
    by (rule conjunct1)
  from bspec [OF this r(1)] obtain act where act: "act \<in> set allActivities"
    "tempSuitable rainyAt22 act" "conditionsSuitable rainyAt22 act" "rec_activity r = activity act"
    "suitability r = Fair \<longleftrightarrow>
           \<not> (temperature rainyAt22 \<ge> tempRange act ! 0 + 5 \<and> temperature rainyAt22 \<le> tempRange act ! 1 - 5) \<and>
           precipitation rainyAt22 > 5"
    by blast
  have "\<exists>r \<in> set ?all. \<exists>act \<in> set allActivities.
      activity act = ''Beach'' \<and> rec_activity r = ''Beach'' \<and> suitability r = Fair \<and>
      tempSuitable rainyAt22 act \<and> conditionsSuitable rainyAt22 act \<and>
      \<not> (temperature rainyAt22 \<ge> tempRange act ! 0 + 5 \<and>
         temperature rainyAt22 \<le> tempRange act ! 1 - 5) \<and>
      precipitation rainyAt22 > 5"
    using r act by (intro bexI [of _ r] bexI [of _ act]) simp_all
  with run show ?thesis
    by (intro conjI)
qed

subsection \<open>The alert synthesizer\<close>

lemma alerts_alertResultOf:
  "alerts (alertResultOf w) =
    (if precipitation w > 20 then [heavyRain] else []) @ (if windSpeed w > 30 then [highWinds] else [])"
  by (simp add: alertResultOf_def)

lemma heavyRain_neq_highWinds: "heavyRain \<noteq> highWinds"
  by (simp add: heavyRain_def highWinds_def)

text \<open>
  C3. The synthesizer emits the moderate Heavy Rain alert exactly when the precipitation is
  strictly greater than 20 (none at exactly 20) and the severe High Winds alert exactly when
  the wind speed is strictly greater than 30; when both trigger, Heavy Rain comes first; no
  other alert is produced and none twice.
\<close>

theorem alert_thresholds:
  "(heavyRain \<in> set (alerts (alertResultOf w)) \<longleftrightarrow> precipitation w > 20) \<and>
   (highWinds \<in> set (alerts (alertResultOf w)) \<longleftrightarrow> windSpeed w > 30) \<and>
   set (alerts (alertResultOf w)) \<subseteq> {heavyRain, highWinds} \<and>
   distinct (alerts (alertResultOf w)) \<and>
   (precipitation w > 20 \<and> windSpeed w > 30 \<longrightarrow> alerts (alertResultOf w) = [heavyRain, highWinds]) \<and>
   (precipitation w = 20 \<longrightarrow> heavyRain \<notin> set (alerts (alertResultOf w))) \<and>
   severity heavyRain = Moderate \<and> event heavyRain = ''Heavy Rain'' \<and>
   severity highWinds = Severe \<and> event highWinds = ''High Winds''"
proof -
  have tags: "severity heavyRain = Moderate \<and> event heavyRain = ''Heavy Rain'' \<and>
      severity highWinds = Severe \<and> event highWinds = ''High Winds''"
    by (simp add: heavyRain_def highWinds_def)
  show ?thesis
    using heavyRain_neq_highWinds tags by (auto simp add: alerts_alertResultOf)
qed

theorem alert_thresholds_witness:
  "alerts (alertResultOf stormy) = [heavyRain, highWinds] \<and>
   alerts (alertResultOf rainAtThreshold) = [] \<and>
   alerts (alertResultOf (rainAtThreshold \<lparr> precipitation := 20.01 \<rparr>)) = [heavyRain] \<and>
   heavyRain \<notin> set (alerts (alertResultOf rainAtThreshold))"
proof -
  have s: "precipitation stormy > 20 \<and> windSpeed stormy > 30"
    by (simp add: stormy_def)
  have t: "precipitation rainAtThreshold = 20"
    by (simp add: rainAtThreshold_def)
  have calm: "alerts (alertResultOf rainAtThreshold) = []"
    by (simp add: alerts_alertResultOf rainAtThreshold_def weatherRecordOf_def clearAt22_def)
  from alert_thresholds [of stormy] s have "alerts (alertResultOf stormy) = [heavyRain, highWinds]"
    by simp
  moreover from alert_thresholds [of rainAtThreshold] t
  have "heavyRain \<notin> set (alerts (alertResultOf rainAtThreshold))"
    by simp
  moreover have "alerts (alertResultOf (rainAtThreshold \<lparr> precipitation := 20.01 \<rparr>)) = [heavyRain]"
    by (simp add: alerts_alertResultOf rainAtThreshold_def weatherRecordOf_def clearAt22_def)
  ultimately show ?thesis
    using calm by simp
qed

text \<open>
  C10. In the synthesizer's result, \<open>hasAlerts\<close> is true if and only if the list of alerts
  is not empty.
\<close>

theorem hasAlerts_iff_nonempty:
  "hasAlerts (alertResultOf w) \<longleftrightarrow> alerts (alertResultOf w) \<noteq> []"
  by (simp add: alertResultOf_def)

subsection \<open>The clothing recommender and the forecast fetcher\<close>

lemma tiers_distinct: "distinct [freezingTier, coldTier, mildTier, warmTier]"
  by (simp add: freezingTier_def coldTier_def mildTier_def warmTier_def)

lemma clothing_fields:
  "layers (cl_recommendations (clothingResultOf w a)) = fst (baseTier (temperature w))"
  "prefix (fst (snd (baseTier (temperature w)))) (accessories (cl_recommendations (clothingResultOf w a)))"
  "footwear (cl_recommendations (clothingResultOf w a)) = snd (snd (baseTier (temperature w))) \<or>
   footwear (cl_recommendations (clothingResultOf w a)) = ''Hiking boots''"
  by (simp_all add: clothingResultOf_def Let_def split: prod.split)

text \<open>
  C4, as the code has it. The ladder selects exactly one of four distinct tiers: below 0,
  from 0 to below 10, from 10 to below 20, and from 20 up; the first matching threshold
  wins. At a boundary of exactly 0, 10 or 20 the strict comparison with that boundary fails
  and the next rung is selected, which is the tier of the temperatures at and above the
  boundary. The layers of the result are those of the tier, its accessories start with the
  tier's, and its footwear is the tier's unless the activity is hiking.
\<close>

theorem clothing_tier_ladder:
  "(t < 0 \<longrightarrow> baseTier t = freezingTier) \<and>
   (0 \<le> t \<and> t < 10 \<longrightarrow> baseTier t = coldTier) \<and>
   (10 \<le> t \<and> t < 20 \<longrightarrow> baseTier t = mildTier) \<and>
   (20 \<le> t \<longrightarrow> baseTier t = warmTier) \<and>
   baseTier 0 = coldTier \<and> baseTier 10 = mildTier \<and> baseTier 20 = warmTier \<and>
   distinct [freezingTier, coldTier, mildTier, warmTier] \<and>
   layers (cl_recommendations (clothingResultOf w a)) = fst (baseTier (temperature w)) \<and>
   prefix (fst (snd (baseTier (temperature w))))
     (accessories (cl_recommendations (clothingResultOf w a))) \<and>
   (footwear (cl_recommendations (clothingResultOf w a)) = snd (snd (baseTier (temperature w))) \<or>
    footwear (cl_recommendations (clothingResultOf w a)) = ''Hiking boots'')"
proof -
  have ladder: "(t < 0 \<longrightarrow> baseTier t = freezingTier) \<and>
      (0 \<le> t \<and> t < 10 \<longrightarrow> baseTier t = coldTier) \<and>
      (10 \<le> t \<and> t < 20 \<longrightarrow> baseTier t = mildTier) \<and>
      (20 \<le> t \<longrightarrow> baseTier t = warmTier)"
    by (simp add: baseTier_def)
  have bounds: "baseTier 0 = coldTier \<and> baseTier 10 = mildTier \<and> baseTier 20 = warmTier"
    by (simp add: baseTier_def)
  from ladder bounds tiers_distinct clothing_fields [of w a] show ?thesis
    by blast
qed

theorem clothing_tier_ladder_witness:
  "baseTier (- 5) = freezingTier \<and> baseTier 5 = coldTier \<and> baseTier 15 = mildTier \<and>
   baseTier 25 = warmTier \<and> baseTier 0 = coldTier \<and>
   layers (cl_recommendations (clothingResultOf hikingAtLowerBound (Some ''Hiking trip''))) =
     [''T-shirt'', ''Light jacket or hoodie'']"
proof -
  have "baseTier (- 5) = freezingTier"
    using clothing_tier_ladder [of "- 5" hikingAtLowerBound None] by simp
  moreover have "baseTier 5 = coldTier"
    using clothing_tier_ladder [of 5 hikingAtLowerBound None] by simp
  moreover have "baseTier 15 = mildTier"
    using clothing_tier_ladder [of 15 hikingAtLowerBound None] by simp
  moreover have "baseTier 25 = warmTier \<and> baseTier 0 = coldTier"
    using clothing_tier_ladder [of 25 hikingAtLowerBound None] by simp
  moreover have "temperature hikingAtLowerBound = 10"
    by (simp add: hikingAtLowerBound_def)
  then have "layers (cl_recommendations (clothingResultOf hikingAtLowerBound (Some ''Hiking trip''))) =
      [''T-shirt'', ''Light jacket or hoodie'']"
    using clothing_tier_ladder [of 10 hikingAtLowerBound "Some ''Hiking trip''"]
    by (simp add: mildTier_def)
  ultimately show ?thesis
    by simp
qed

text \<open>
  C4 as stated fails: at 0, 10 and 20 the tier selected is not the lower one, the tier of
  the temperatures just below the boundary.
\<close>

theorem clothing_boundary_counterexample:
  "baseTier (- 1) = freezingTier \<and> baseTier 0 \<noteq> freezingTier \<and>
   baseTier 9 = coldTier \<and> baseTier 10 \<noteq> coldTier \<and>
   baseTier 19 = mildTier \<and> baseTier 20 \<noteq> mildTier"
  by (simp add: baseTier_def freezingTier_def coldTier_def mildTier_def warmTier_def)

lemma forecast_nth:
  "i < length (daily_time (daily data)) \<Longrightarrow>
   forecast (forecastResultOf g data) ! i =
     forecastDayOf (daily data) (daily_time (daily data) ! i) i"
  by (simp add: forecastResultOf_def)

lemma forecast_dates: "map date (forecast (forecastResultOf g data)) = daily_time (daily data)"
  by (rule nth_equalityI) (simp_all add: forecastResultOf_def forecastDayOf_def)

lemma forecast_length: "length (forecast (forecastResultOf g data)) = length (daily_time (daily data))"
  by (simp add: forecastResultOf_def)

lemma getWeatherForecast_success:
  assumes "geocodeLocation e loc = Inr g"
    and "forecastApi e (latitude g) (longitude g) (case daysArg of None \<Rightarrow> 3 | Some d \<Rightarrow> d) = Inr data"
  shows "getWeatherForecast e loc daysArg = Inr (forecastResultOf g data)"
  using assms by (simp add: getWeatherForecast_def)

text \<open>
  C6, as the code has it. When the location resolves and the provider answers, the fetcher
  returns one entry per element of the provider's \<open>time\<close> array, in the provider's order,
  and entry \<open>i\<close> is built from index \<open>i\<close> of each parallel array (an index missing
  from an array reads \<open>undefined\<close>, and \<open>Unknown\<close> for the conditions). The number of
  entries is the requested number of days (3 by default) when the provider's payload has
  that many dates, and the entries are in ascending order of date when the provider's dates
  are; with parallel arrays of equal length every field of every entry is defined.
\<close>

theorem forecast_zips_provider_arrays:
  assumes geo: "geocodeLocation e loc = Inr g"
    and api: "forecastApi e (latitude g) (longitude g)
                (case daysArg of None \<Rightarrow> 3 | Some d \<Rightarrow> d) = Inr data"
  shows "getWeatherForecast e loc daysArg = Inr (forecastResultOf g data) \<and>
    length (forecast (forecastResultOf g data)) = length (daily_time (daily data)) \<and>
    map date (forecast (forecastResultOf g data)) = daily_time (daily data) \<and>
    (\<forall>i < length (daily_time (daily data)).
       date (forecast (forecastResultOf g data) ! i) = daily_time (daily data) ! i \<and>
       high (forecast (forecastResultOf g data) ! i) = arrayGet (temperature_2m_max (daily data)) i \<and>
       low (forecast (forecastResultOf g data) ! i) = arrayGet (temperature_2m_min (daily data)) i \<and>
       fd_conditions (forecast (forecastResultOf g data) ! i) =
         (case arrayGet (daily_weather_code (daily data)) i of
            None \<Rightarrow> ''Unknown'' | Some code \<Rightarrow> getWeatherCondition code) \<and>
       precipitationChance (forecast (forecastResultOf g data) ! i) =
         arrayGet (precipitation_probability_max (daily data)) i \<and>
       fd_windSpeed (forecast (forecastResultOf g data) ! i) = arrayGet (wind_speed_10m_max (daily data)) i \<and>
       fd_uvIndex (forecast (forecastResultOf g data) ! i) = arrayGet (uv_index_max (daily data)) i) \<and>
    (real (length (daily_time (daily data))) = (case daysArg of None \<Rightarrow> 3 | Some d \<Rightarrow> d) \<longrightarrow>
       real (length (forecast (forecastResultOf g data))) = (case daysArg of None \<Rightarrow> 3 | Some d \<Rightarrow> d)) \<and>
    (sorted (daily_time (daily data)) \<longrightarrow> sorted (map date (forecast (forecastResultOf g data)))) \<and>
    (\<forall>i < length (daily_time (daily data)).
       length (temperature_2m_max (daily data)) = length (daily_time (daily data)) \<and>
       length (temperature_2m_min (daily data)) = length (daily_time (daily data)) \<and>
       length (daily_weather_code (daily data)) = length (daily_time (daily data)) \<and>
       length (precipitation_probability_max (daily data)) = length (daily_time (daily data)) \<and>
       length (wind_speed_10m_max (daily data)) = length (daily_time (daily data)) \<and>
       length (uv_index_max (daily data)) = length (daily_time (daily data)) \<longrightarrow>
       forecast (forecastResultOf g data) ! i =
         \<lparr> date = daily_time (daily data) ! i,
           high = Some (temperature_2m_max (daily data) ! i),
           low = Some (temperature_2m_min (daily data) ! i),
           fd_conditions = getWeatherCondition (daily_weather_code (daily data) ! i),
           precipitationChance = Some (precipitation_probability_max (daily data) ! i),
           fd_windSpeed = Some (wind_speed_10m_max (daily data) ! i),
           fd_uvIndex = Some (uv_index_max (daily data) ! i) \<rparr>)"
proof (intro conjI allI impI)
  show "getWeatherForecast e loc daysArg = Inr (forecastResultOf g data)"
    using geo api by (rule getWeatherForecast_success)
next
  show "length (forecast (forecastResultOf g data)) = length (daily_time (daily data))"
    by (rule forecast_length)
next
  show "map date (forecast (forecastResultOf g data)) = daily_time (daily data)"
    by (rule forecast_dates)
next
  assume "real (length (daily_time (daily data))) = (case daysArg of None \<Rightarrow> 3 | Some d \<Rightarrow> d)"
  then show "real (length (forecast (forecastResultOf g data))) = (case daysArg of None \<Rightarrow> 3 | Some d \<Rightarrow> d)"
    by (simp add: forecast_length)
next
  assume "sorted (daily_time (daily data))"
  then show "sorted (map date (forecast (forecastResultOf g data)))"
    by (simp add: forecast_dates)
qed (simp_all add: forecast_nth forecastDayOf_def arrayGet_def)

lemma short_geocode: "geocodeLocation shortEnv loc = Inr paris"
  by (simp add: geocodeLocation_def shortEnv_def stubEnv_def)

theorem forecast_zips_provider_arrays_witness:
  "getWeatherForecast stubEnv ''Paris'' None = Inr (forecastResultOf paris threeDays) \<and>
   length (forecast (forecastResultOf paris threeDays)) = 3 \<and>
   map date (forecast (forecastResultOf paris threeDays)) =
     [''2025-06-01'', ''2025-06-02'', ''2025-06-03''] \<and>
   sorted (map date (forecast (forecastResultOf paris threeDays))) \<and>
   forecast (forecastResultOf paris threeDays) ! 2 =
     \<lparr> date = ''2025-06-03'', high = Some 19, low = Some 11, fd_conditions = ''Slight rain'',
       precipitationChance = Some 80, fd_windSpeed = Some 20, fd_uvIndex = Some 2 \<rparr>"
proof -
  have api: "forecastApi stubEnv (latitude paris) (longitude paris)
      (case None of None \<Rightarrow> 3 | Some d \<Rightarrow> d) = Inr threeDays"
    by (simp add: stubEnv_def)
  note zipped = forecast_zips_provider_arrays [OF stub_geocode api, of "''Paris''"]
  have times: "daily_time (daily threeDays) = [''2025-06-01'', ''2025-06-02'', ''2025-06-03'']"
    by (simp add: threeDays_def)
  have "sorted (daily_time (daily threeDays))"
    by (simp add: times)
  with zipped have ordered: "sorted (map date (forecast (forecastResultOf paris threeDays)))"
    by simp
  have "(2::nat) < length (daily_time (daily threeDays))"
    by (simp add: times)
  with zipped have "forecast (forecastResultOf paris threeDays) ! 2 =
         \<lparr> date = daily_time (daily threeDays) ! 2,
           high = Some (temperature_2m_max (daily threeDays) ! 2),
           low = Some (temperature_2m_min (daily threeDays) ! 2),
           fd_conditions = getWeatherCondition (daily_weather_code (daily threeDays) ! 2),
           precipitationChance = Some (precipitation_probability_max (daily threeDays) ! 2),
           fd_windSpeed = Some (wind_speed_10m_max (daily threeDays) ! 2),
           fd_uvIndex = Some (uv_index_max (daily threeDays) ! 2) \<rparr>"
    by (simp add: threeDays_def)
  then have third: "forecast (forecastResultOf paris threeDays) ! 2 =
     \<lparr> date = ''2025-06-03'', high = Some 19, low = Some 11, fd_conditions = ''Slight rain'',
       precipitationChance = Some 80, fd_windSpeed = Some 20, fd_uvIndex = Some 2 \<rparr>"
    by (simp add: threeDays_def getWeatherCondition_def conditionTable_def)
  from zipped ordered third show ?thesis
    by (simp add: times)
qed

text \<open>
  C6 as stated fails: for 3 requested days, a provider payload with two dates in descending
  order gives two entries in descending order.
\<close>

theorem forecast_days_counterexample:
  "getWeatherForecast shortEnv ''Paris'' (Some 3) = Inr (forecastResultOf paris twoDaysDescending) \<and>
   length (forecast (forecastResultOf paris twoDaysDescending)) = 2 \<and>
   map date (forecast (forecastResultOf paris twoDaysDescending)) = [''2025-06-02'', ''2025-06-01''] \<and>
   \<not> sorted (map date (forecast (forecastResultOf paris twoDaysDescending)))"
proof -
  have "forecastApi shortEnv (latitude paris) (longitude paris)
      (case Some 3 of None \<Rightarrow> 3 | Some d \<Rightarrow> d) = Inr twoDaysDescending"
    by (simp add: shortEnv_def)
  with short_geocode have "getWeatherForecast shortEnv ''Paris'' (Some 3) =
      Inr (forecastResultOf paris twoDaysDescending)"
    by (rule getWeatherForecast_success)
  moreover have "daily_time (daily twoDaysDescending) = [''2025-06-02'', ''2025-06-01'']"
    by (simp add: twoDaysDescending_def)
  ultimately show ?thesis
    by (simp add: forecast_length forecast_dates)
qed

subsection \<open>The score steps\<close>

lemma toolScoreMap_lookup:
  assumes "(v, x) \<in> set toolScoreMap"
  shows "map_of toolScoreMap v = Some x" and "x \<noteq> 0" and "0 \<le> x" and "x \<le> 1"
proof -
  have "distinct (map fst toolScoreMap)"
    by (simp add: toolScoreMap_def)
  with assms show "map_of toolScoreMap v = Some x"
    by simp
  have "\<forall>p \<in> set toolScoreMap. snd p \<noteq> 0 \<and> 0 \<le> snd p \<and> snd p \<le> 1"
    by (simp add: toolScoreMap_def)
  with assms show "x \<noteq> 0" and "0 \<le> x" and "x \<le> 1"
    by fastforce+
qed

lemma completenessScoreMap_lookup:
  assumes "(v, x) \<in> set completenessScoreMap"
  shows "map_of completenessScoreMap v = Some x" and "x \<noteq> 0"
proof -
  have "distinct (map fst completenessScoreMap)"
    by (simp add: completenessScoreMap_def)
  with assms show "map_of completenessScoreMap v = Some x"
    by simp
  have "\<forall>p \<in> set completenessScoreMap. snd p \<noteq> 0"
    by (simp add: completenessScoreMap_def)
  with assms show "x \<noteq> 0"
    by fastforce
qed

text \<open>
  A verdict of the enumeration: the fixed value, multiplied as doubles by the confidence
  (1 when it is absent) and clamped; the completeness step returns the fixed value.
\<close>

lemma tool_known:
  assumes "(v, x) \<in> set toolScoreMap"
  shows "toolCallAppropriateness_generateScore mul
           (Some \<lparr> appropriateness = Some v, confidence = c \<rparr>) =
    Number (max 0 (min 1 (mul x (case c of None \<Rightarrow> 1 | Some k \<Rightarrow> k))))"
  by (simp add: toolCallAppropriateness_generateScore_def getProperty_def orElse_def
      toolScoreMap_lookup(1,2) [OF assms])

lemma completeness_known:
  assumes "(v, x) \<in> set completenessScoreMap"
  shows "completeness_generateScore (Some \<lparr> completeness = Some v \<rparr>) = Number x"
  by (simp add: completeness_generateScore_def getProperty_def orElse_def
      completenessScoreMap_lookup [OF assms])

text \<open>
  The product of a double with 1 is that double, and its product with 0.5 is its half
  (barring underflow, which the fixed values are far from). For a multiplication with these
  two properties, confidence 1 or none returns the fixed value and confidence 0.5 its half.
\<close>

lemma tool_known_exact:
  assumes "(v, x) \<in> set toolScoreMap"
    and "mul x 1 = x" and "mul x 0.5 = x / 2"
  shows "toolCallAppropriateness_generateScore mul
           (Some \<lparr> appropriateness = Some v, confidence = None \<rparr>) = Number x"
    and "toolCallAppropriateness_generateScore mul
           (Some \<lparr> appropriateness = Some v, confidence = Some 1 \<rparr>) = Number x"
    and "toolCallAppropriateness_generateScore mul
           (Some \<lparr> appropriateness = Some v, confidence = Some 0.5 \<rparr>) = Number (x / 2)"
  using toolScoreMap_lookup(3,4) [OF assms(1)] assms(2,3)
  by (simp_all add: tool_known [OF assms(1)])

text \<open>
  A missing analysis, a missing verdict, and a verdict string that is neither in the
  enumeration nor the name of an inherited member: the base score is 0.5.
\<close>

lemma tool_unknown:
  assumes "case verdict of None \<Rightarrow> True
           | Some v \<Rightarrow> v \<notin> fst ` set toolScoreMap \<and> v \<notin> set objectPrototypeNames"
  shows "toolCallAppropriateness_generateScore mul
           (Some \<lparr> appropriateness = verdict, confidence = c \<rparr>) =
    Number (max 0 (min 1 (mul 0.5 (case c of None \<Rightarrow> 1 | Some k \<Rightarrow> k))))"
proof (cases verdict)
  case None
  then show ?thesis
    by (simp add: toolCallAppropriateness_generateScore_def getProperty_def orElse_def)
next
  case (Some v)
  with assms have "map_of toolScoreMap v = None" and "v \<notin> set objectPrototypeNames"
    by (simp_all add: map_of_eq_None_iff)
  with Some show ?thesis
    by (simp add: toolCallAppropriateness_generateScore_def getProperty_def orElse_def)
qed

lemma completeness_unknown:
  assumes "case verdict of None \<Rightarrow> True
           | Some v \<Rightarrow> v \<notin> fst ` set completenessScoreMap \<and> v \<notin> set objectPrototypeNames"
  shows "completeness_generateScore (Some \<lparr> completeness = verdict \<rparr>) = Number 0.5"
proof (cases verdict)
  case None
  then show ?thesis
    by (simp add: completeness_generateScore_def getProperty_def orElse_def)
next
  case (Some v)
  with assms have "map_of completenessScoreMap v = None" and "v \<notin> set objectPrototypeNames"
    by (simp_all add: map_of_eq_None_iff)
  with Some show ?thesis
    by (simp add: completeness_generateScore_def getProperty_def orElse_def)
qed

lemma missing_analysis:
  "toolCallAppropriateness_generateScore mul None = Number (max 0 (min 1 (mul 0.5 1)))"
  "completeness_generateScore None = Number 0.5"
  by (simp_all add: toolCallAppropriateness_generateScore_def completeness_generateScore_def
      getProperty_def orElse_def)

text \<open>
  C7. The substitution of the base score 0.5 for a verdict outside the enumeration fails on
  the code when the verdict names a member inherited from \<open>Object.prototype\<close>: the lookup
  \<open>scoreMap[verdict]\<close> finds the member, which is truthy, so \<open>|| 0.5\<close> does not fire. For
  the verdict \<open>constructor\<close> the tool appropriateness score step returns \<open>NaN\<close>, whatever
  the confidence and the multiplication, and not a score in \<open>[0, 1]\<close>; for \<open>toString\<close> the
  completeness score step returns the member itself. Neither verdict is in its score map.
\<close>

theorem score_fallback_misses_inherited_names:
  "''constructor'' \<notin> fst ` set toolScoreMap \<and>
   toolCallAppropriateness_generateScore mul
     (Some \<lparr> appropriateness = Some ''constructor'', confidence = c \<rparr>) = NaN \<and>
   toolCallAppropriateness_generateScore mul
     (Some \<lparr> appropriateness = Some ''constructor'', confidence = c \<rparr>) \<noteq> Number 0.5 \<and>
   ''toString'' \<notin> fst ` set completenessScoreMap \<and>
   completeness_generateScore (Some \<lparr> completeness = Some ''toString'' \<rparr>) = Inherited ''toString'' \<and>
   completeness_generateScore (Some \<lparr> completeness = Some ''toString'' \<rparr>) \<noteq> Number 0.5"
  by (simp add: toolScoreMap_def completenessScoreMap_def toolCallAppropriateness_generateScore_def
      completeness_generateScore_def getProperty_def orElse_def objectPrototypeNames_def)

end
